theory Spec2Isabelle
  imports Main "HOL-Library.Word"
begin

section \<open>The ipm Sender contract and its ZeroMQ backend\<close>

text \<open>
  A shallow embedding of \<^verbatim>\<open>src/include/ipm/Sender.hpp\<close> and
  \<^verbatim>\<open>src/plugins/ZmqSenderImpl.hpp\<close>. Objects are records, the member functions
  take the object and return it updated, a thrown issue is the left injection of a sum, and
  the retry loop of \<^verbatim>\<open>ZmqSenderImpl::send_\<close> is a partial function whose value
  \<open>None\<close> stands for a call that never returns. Logging (\<^verbatim>\<open>TLOG\<close>) has no effect on
  the state and is left out.
\<close>

subsection \<open>Integers of the source\<close>

text \<open>
  \<^verbatim>\<open>message_size_t\<close> is \<^verbatim>\<open>int\<close>; \<^verbatim>\<open>duration_t\<close> is
  \<^verbatim>\<open>std::chrono::milliseconds\<close>, a signed 64-bit count. Both are kept as
  mathematical integers and every conversion the source performs is written out with its
  wrap-around. The counters are \<^verbatim>\<open>size_t\<close>, 64-bit words.
\<close>

type_synonym message_size_t = int
type_synonym duration_t = int
type_synonym bytes = string

definition s_block :: duration_t where
  \<comment> \<open>\<^verbatim>\<open>duration_t::max()\<close>\<close>
  "s_block = 9223372036854775807"

definition s_no_block :: duration_t where
  \<comment> \<open>\<^verbatim>\<open>duration_t::zero()\<close>\<close>
  "s_no_block = 0"

definition to_int32 :: "int \<Rightarrow> int" where
  \<comment> \<open>conversion of a 64-bit count to \<^verbatim>\<open>int\<close>, the type of the issue's field\<close>
  "to_int32 x = (x + 2147483648) mod 4294967296 - 2147483648"

text \<open>
  \<^verbatim>\<open>steady_clock::duration\<close> counts nanoseconds in a signed 64-bit integer (libstdc++ and
  libc++). Comparing it with a \<^verbatim>\<open>duration_t\<close> converts the milliseconds to that type:
  the count is multiplied by \<open>10\<^sup>6\<close> in 64-bit arithmetic. For counts beyond
  \<open>9223372036854\<close> the product overflows, which C++ leaves undefined; the model takes the
  two's-complement result of the multiplication.
\<close>

definition to_nanoseconds :: "duration_t \<Rightarrow> int" where
  \<comment> \<open>\<^verbatim>\<open>std::chrono::nanoseconds(timeout).count()\<close>\<close>
  "to_nanoseconds t =
     (t * 1000000 + 9223372036854775808) mod 18446744073709551616 - 9223372036854775808"

definition to_size_t :: "int \<Rightarrow> nat" where
  \<comment> \<open>conversion of an \<^verbatim>\<open>int\<close> to \<^verbatim>\<open>size_t\<close>\<close>
  "to_size_t n = unat (word_of_int n :: 64 word)"

subsection \<open>Issues\<close>

datatype error =
    KnownStateForbidsSend
  | NullPointerPassedToSend
  | SendTimeoutExpired int

subsection \<open>The steady clock\<close>

text \<open>
  The clock is part of the environment. A clock value holds the last reading in nanoseconds
  and, for every read still to come, how many nanoseconds pass before it; readings therefore
  never decrease, which is what \<^verbatim>\<open>std::chrono::steady_clock\<close> guarantees.
\<close>

record steady_clock =
  reading :: int
  reads :: nat
  passes :: "nat \<Rightarrow> nat"

definition now :: "steady_clock \<Rightarrow> int \<times> steady_clock" where
  "now clk =
     (let t = reading clk + int (passes clk (reads clk))
      in (t, clk\<lparr>reading := t, reads := Suc (reads clk)\<rparr>))"

definition elapsed_less :: "int \<Rightarrow> duration_t \<Rightarrow> bool" where
  \<comment> \<open>\<^verbatim>\<open>elapsed < timeout\<close> between a \<^verbatim>\<open>steady_clock::duration\<close> (nanoseconds) and
      milliseconds: the comparison is made in the common type, nanoseconds\<close>
  "elapsed_less elapsed timeout = (elapsed < to_nanoseconds timeout)"

subsection \<open>The socket\<close>

text \<open>
  \<^verbatim>\<open>zmq::socket_t\<close> belongs to the transport library, not to this repository. The model
  keeps what the source can observe and what the receivers see:
  \<^item> every call of \<^verbatim>\<open>send\<close> is logged with its part, its \<^verbatim>\<open>ZMQ_SNDMORE\<close> flag and
    the boolean it returned;
  \<^item> whether the \<open>k\<close>-th call is accepted is decided by the environment (\<open>accepts\<close>);
  \<^item> accepted parts flagged \<^verbatim>\<open>ZMQ_SNDMORE\<close> wait in \<open>pending\<close>; an accepted part
    without the flag completes the logical message, which is appended to \<open>queued\<close>;
  \<^item> a part that is not accepted abandons the unfinished message: ZeroMQ delivers a
    multi-part message whole or not at all, and rolls the earlier parts back when a later
    part cannot be written.
\<close>

datatype socket_type = push | pub

datatype send_call = SendCall (part: bytes) (sndmore: bool) (accepted: bool)

record socket_t =
  kind :: socket_type
  sndtimeo :: "int option"
  endpoints :: "string list"
  pending :: "bytes list"
  queued :: "bytes list list"
  calls :: "send_call list"
  accepts :: "nat \<Rightarrow> bool"

definition socket_new :: "socket_type \<Rightarrow> (nat \<Rightarrow> bool) \<Rightarrow> socket_t" where
  "socket_new ty chan =
     \<lparr>kind = ty, sndtimeo = None, endpoints = [], pending = [], queued = [], calls = [],
      accepts = chan\<rparr>"

definition socket_setsockopt_SNDTIMEO :: "socket_t \<Rightarrow> int \<Rightarrow> socket_t" where
  "socket_setsockopt_SNDTIMEO sock ms = sock\<lparr>sndtimeo := Some ms\<rparr>"

definition socket_bind :: "socket_t \<Rightarrow> string \<Rightarrow> socket_t" where
  "socket_bind sock addr = sock\<lparr>endpoints := endpoints sock @ [addr]\<rparr>"

definition socket_send :: "socket_t \<Rightarrow> bytes \<Rightarrow> bool \<Rightarrow> bool \<times> socket_t" where
  "socket_send sock msg snd_more =
     (let ok = accepts sock (length (calls sock));
          sock1 = sock\<lparr>calls := calls sock @ [SendCall msg snd_more ok]\<rparr>
      in if \<not> ok then (False, sock1\<lparr>pending := []\<rparr>)
         else if snd_more then (True, sock1\<lparr>pending := pending sock @ [msg]\<rparr>)
         else (True, sock1\<lparr>pending := [], queued := queued sock @ [pending sock @ [msg]]\<rparr>))"

definition message_t :: "bytes option \<Rightarrow> nat \<Rightarrow> bytes" where
  \<comment> \<open>\<^verbatim>\<open>zmq::message_t(data, size)\<close> copies \<open>n\<close> bytes from \<open>data\<close>; \<open>None\<close> is the
      null pointer, which \<^verbatim>\<open>Sender::send\<close> never lets through with a non-zero size\<close>
  "message_t data n = (case data of None \<Rightarrow> [] | Some buf \<Rightarrow> take n buf)"

subsection \<open>Sender and ZmqSenderImpl\<close>

record Sender =
  m_bytes :: "64 word"
  m_messages :: "64 word"

record ZmqSenderImpl = Sender +
  m_socket :: socket_t
  m_connection_string :: string
  m_socket_connected :: bool

datatype SenderType = Publisher | Push

text \<open>
  The constructor initialises \<^verbatim>\<open>m_socket\<close> only. \<^verbatim>\<open>m_connection_string\<close> is
  default-constructed, the counters have default member initialisers, and
  \<^verbatim>\<open>m_socket_connected\<close> has no initialiser at all: it starts with whatever its storage
  holds, the parameter \<open>indeterminate\<close>.
\<close>

definition ZmqSenderImpl_new :: "SenderType \<Rightarrow> (nat \<Rightarrow> bool) \<Rightarrow> bool \<Rightarrow> ZmqSenderImpl" where
  "ZmqSenderImpl_new type chan indeterminate =
     \<lparr>m_bytes = 0, m_messages = 0,
      m_socket = socket_new (if type = Push then push else pub) chan,
      m_connection_string = [],
      m_socket_connected = indeterminate\<rparr>"

definition can_send :: "ZmqSenderImpl \<Rightarrow> bool" where
  "can_send self = m_socket_connected self"

type_synonym json = "string \<rightharpoonup> string"

definition json_value :: "json \<Rightarrow> string \<Rightarrow> string \<Rightarrow> string" where
  \<comment> \<open>\<^verbatim>\<open>connection_info.value<std::string>(key, default_value)\<close> on an object whose
      values are strings\<close>
  "json_value j key default_value = (case j key of None \<Rightarrow> default_value | Some v \<Rightarrow> v)"

definition connect_for_sends :: "json \<Rightarrow> ZmqSenderImpl \<Rightarrow> ZmqSenderImpl" where
  "connect_for_sends connection_info self =
     (let self1 = self\<lparr>m_connection_string :=
                    json_value connection_info ''connection_string'' ''inproc://default''\<rparr>;
          self2 = self1\<lparr>m_socket := socket_setsockopt_SNDTIMEO (m_socket self1) 1\<rparr>;
          self3 = self2\<lparr>m_socket := socket_bind (m_socket self2) (m_connection_string self2)\<rparr>
      in self3\<lparr>m_socket_connected := True\<rparr>)"

text \<open>One pass through the body of the \<^verbatim>\<open>do\<close> loop (lines 54 to 63).\<close>

definition attempt :: "bytes option \<Rightarrow> message_size_t \<Rightarrow> string \<Rightarrow> socket_t \<Rightarrow> bool \<times> socket_t" where
  "attempt message N topic sock =
     (let topic_msg = message_t (Some topic) (length topic);
          r = socket_send sock topic_msg True
      in if \<not> fst r then r
         else socket_send (snd r) (message_t message (to_size_t N)) False)"

text \<open>
  The \<^verbatim>\<open>do ... while\<close> loop: the body runs, then the clock is read and compared with the
  timeout, then \<^verbatim>\<open>!res\<close> is tested. \<^verbatim>\<open>continue\<close> in the body jumps to that test.
\<close>

partial_function (option) send_loop ::
  "bytes option \<Rightarrow> message_size_t \<Rightarrow> duration_t \<Rightarrow> string \<Rightarrow> int \<Rightarrow>
   steady_clock \<times> socket_t \<Rightarrow> (bool \<times> steady_clock \<times> socket_t) option" where
  "send_loop message N timeout topic start_time st =
     (let r = attempt message N topic (snd st);
          t = now (fst st)
      in if elapsed_less (fst t - start_time) timeout \<and> \<not> fst r
         then send_loop message N timeout topic start_time (snd t, snd r)
         else Some (fst r, snd t, snd r))"

declare send_loop.simps [code]

text \<open>
  \<^verbatim>\<open>ZmqSenderImpl::send_\<close> (a name cannot end in an underscore here, hence
  \<open>send_impl\<close>). As written it takes four arguments and returns nothing: it has no
  \<^verbatim>\<open>no_tmoexcept_mode\<close> and reports a timeout by throwing only. The issue's field is
  declared \<^verbatim>\<open>((int)timeout)\<close>, so the 64-bit \<^verbatim>\<open>timeout.count()\<close> is converted to
  \<^verbatim>\<open>int\<close>.
\<close>

definition send_impl ::
  "bytes option \<Rightarrow> message_size_t \<Rightarrow> duration_t \<Rightarrow> string \<Rightarrow>
   steady_clock \<times> ZmqSenderImpl \<Rightarrow> ((error + unit) \<times> steady_clock \<times> ZmqSenderImpl) option" where
  "send_impl message N timeout topic st =
     (let t = now (fst st)
      in case send_loop message N timeout topic (fst t) (snd t, m_socket (snd st)) of
           None \<Rightarrow> None
         | Some (res, clk, sock) \<Rightarrow>
             Some (if \<not> res then Inl (SendTimeoutExpired (to_int32 timeout)) else Inr (),
                   clk, (snd st)\<lparr>m_socket := sock\<rparr>))"

text \<open>
  Modelled from the spec: \<^verbatim>\<open>Sender::send\<close>, which \<^verbatim>\<open>Sender.hpp\<close> declares and
  documents but whose body is not among the sources. The spec (4.1) gives the checks in
  this order: not ready fails with \<open>NotReady\<close> (the issue \<^verbatim>\<open>KnownStateForbidsSend\<close>);
  a null buffer with a non-zero byte count fails with \<open>InvalidArgument\<close>
  (\<^verbatim>\<open>NullPointerPassedToSend\<close>); a zero byte count is a no-op success; otherwise the
  delivery routine is called, success adds the size to the byte counter and one to the
  message counter, and a timeout is returned as \<open>false\<close> under \<^verbatim>\<open>no_tmoexcept_mode\<close>
  and raised otherwise.
\<close>

definition send ::
  "bytes option \<Rightarrow> message_size_t \<Rightarrow> duration_t \<Rightarrow> string \<Rightarrow> bool \<Rightarrow>
   steady_clock \<times> ZmqSenderImpl \<Rightarrow> ((error + bool) \<times> steady_clock \<times> ZmqSenderImpl) option" where
  "send message message_size timeout metadata no_tmoexcept_mode st =
     (if \<not> can_send (snd st) then Some (Inl KnownStateForbidsSend, st)
      else if message = None \<and> message_size \<noteq> 0 then Some (Inl NullPointerPassedToSend, st)
      else if message_size = 0 then Some (Inr True, st)
      else case send_impl message message_size timeout metadata st of
             None \<Rightarrow> None
           | Some (Inr u, clk, self) \<Rightarrow>
               Some (Inr True, clk,
                     self\<lparr>m_bytes := m_bytes self + word_of_int message_size,
                          m_messages := m_messages self + 1\<rparr>)
           | Some (Inl (SendTimeoutExpired t), clk, self) \<Rightarrow>
               if no_tmoexcept_mode then Some (Inr False, clk, self)
               else Some (Inl (SendTimeoutExpired t), clk, self)
           | Some (Inl e, clk, self) \<Rightarrow> Some (Inl e, clk, self))"

subsection \<open>Reading the call log\<close>

text \<open>
  \<open>topic_first t p cs\<close> reads a stretch of the socket's call log as a sequence of passes
  through the loop body: each pass starts with the topic part \<open>t\<close> flagged
  \<^verbatim>\<open>ZMQ_SNDMORE\<close>; if that call was accepted, the next call is the payload \<open>p\<close> without
  the flag; if it was not, the next call starts a new pass.
\<close>

fun topic_first :: "bytes \<Rightarrow> bytes \<Rightarrow> send_call list \<Rightarrow> bool" where
  "topic_first t p [] = True"
| "topic_first t p (c # cs) =
     (part c = t \<and> sndmore c \<and>
      (if accepted c
       then (case cs of [] \<Rightarrow> False
             | d # ds \<Rightarrow> part d = p \<and> \<not> sndmore d \<and> topic_first t p ds)
       else topic_first t p cs))"

subsection \<open>Concrete environments\<close>

definition example_clock :: steady_clock where
  \<comment> \<open>one microsecond passes before every reading\<close>
  "example_clock = \<lparr>reading = 0, reads = 0, passes = (\<lambda>_. 1000)\<rparr>"

definition stalled_clock :: steady_clock where
  \<comment> \<open>\<open>3 \<cdot> 10\<^sup>1\<^sup>5\<close> ns, more than \<open>2\<^sup>3\<^sup>1\<close> ms, pass before every reading\<close>
  "stalled_clock = \<lparr>reading = 0, reads = 0, passes = (\<lambda>_. 3000000000000000)\<rparr>"

definition late_channel :: "nat \<Rightarrow> bool" where
  \<comment> \<open>a channel that rejects the first part offered and accepts every later one\<close>
  "late_channel k = (0 < k)"

definition example_sender :: ZmqSenderImpl where
  "example_sender = connect_for_sends Map.empty (ZmqSenderImpl_new Push late_channel False)"

definition full_sender :: ZmqSenderImpl where
  \<comment> \<open>the same sender after \<open>2\<^sup>6\<^sup>4 - 1\<close> bytes have been counted\<close>
  "full_sender = example_sender\<lparr>m_bytes := 18446744073709551615\<rparr>"

section \<open>Properties of the model\<close>

subsection \<open>The clock and one pass through the loop body\<close>

lemma now_not_before: "reading clk \<le> fst (now clk)"
  by (simp add: now_def Let_def)

lemma now_reading: "reading (snd (now clk)) = fst (now clk)"
  by (simp add: now_def Let_def)

lemma attempt_fst:
  "fst (attempt message N topic sock) =
     (accepts sock (length (calls sock)) \<and> accepts sock (Suc (length (calls sock))))"
  by (simp add: attempt_def socket_send_def message_t_def Let_def)

lemma attempt_calls:
  "calls (snd (attempt message N topic sock)) =
     calls sock @
       (if accepts sock (length (calls sock))
        then [SendCall topic True True,
              SendCall (message_t message (to_size_t N)) False
                (accepts sock (Suc (length (calls sock))))]
        else [SendCall topic True False])"
  by (simp add: attempt_def socket_send_def message_t_def Let_def)

lemma attempt_pending: "pending (snd (attempt message N topic sock)) = []"
  by (simp add: attempt_def socket_send_def message_t_def Let_def)

lemma attempt_queued:
  "queued (snd (attempt message N topic sock)) =
     (if fst (attempt message N topic sock)
      then queued sock @ [pending sock @ [topic, message_t message (to_size_t N)]]
      else queued sock)"
  by (simp add: attempt_def socket_send_def message_t_def Let_def)

lemma attempt_accepts: "accepts (snd (attempt message N topic sock)) = accepts sock"
  by (simp add: attempt_def socket_send_def message_t_def Let_def)

lemma attempt_rejected:
  assumes "\<not> accepts sock (length (calls sock))"
  shows "attempt message N topic sock =
           (False, sock\<lparr>calls := calls sock @ [SendCall topic True False], pending := []\<rparr>)"
  using assms by (simp add: attempt_def socket_send_def message_t_def Let_def)

subsection \<open>A proof rule for the retry loop\<close>

text \<open>
  If the loop returns, an invariant that holds on entry and survives every failed pass
  holds before the last pass; the result is what that last pass and the clock reading
  after it give.
\<close>

lemma send_loop_rule:
  assumes ret: "send_loop message N timeout topic start_time st = Some y"
    and init: "I st"
    and step: "\<And>s. I s \<Longrightarrow> \<not> fst (attempt message N topic (snd s)) \<Longrightarrow>
                 elapsed_less (fst (now (fst s)) - start_time) timeout \<Longrightarrow>
                 I (snd (now (fst s)), snd (attempt message N topic (snd s)))"
    and exit: "\<And>s. I s \<Longrightarrow>
                 fst (attempt message N topic (snd s)) \<or>
                   \<not> elapsed_less (fst (now (fst s)) - start_time) timeout \<Longrightarrow>
                 Q (fst (attempt message N topic (snd s)), snd (now (fst s)),
                    snd (attempt message N topic (snd s)))"
  shows "Q y"
proof -
  have "message' = message \<and> N' = N \<and> timeout' = timeout \<and> topic' = topic \<and>
          start' = start_time \<longrightarrow> I st \<longrightarrow> Q y"
    if "send_loop message' N' timeout' topic' start' st = Some y"
    for message' N' timeout' topic' start'
    using that
  proof (rule send_loop.raw_induct
      [where P = "\<lambda>m n t tp b s r. m = message \<and> n = N \<and> t = timeout \<and> tp = topic \<and>
                    b = start_time \<longrightarrow> I s \<longrightarrow> Q r",
        rotated], goal_cases)
    case (1 loop m n t tp b s r)
    show ?case
    proof (intro impI, elim conjE)
      assume eqs: "m = message" "n = N" "t = timeout" "tp = topic" "b = start_time"
        and inv: "I s"
      let ?a = "attempt message N topic (snd s)"
      let ?t = "now (fst s)"
      show "Q r"
      proof (cases "elapsed_less (fst ?t - b) t \<and> \<not> fst ?a")
        case True
        with "1"(2) eqs have "loop m n t tp b (snd ?t, snd ?a) = Some r"
          by (simp add: Let_def)
        from "1"(1) [OF this] eqs step [OF inv] True show ?thesis
          by simp
      next
        case False
        with "1"(2) eqs have "r = (fst ?a, snd ?t, snd ?a)"
          by (auto simp add: Let_def)
        moreover from False eqs
        have "fst ?a \<or> \<not> elapsed_less (fst ?t - start_time) timeout"
          by auto
        ultimately show ?thesis
          using exit [OF inv] by simp
      qed
    qed
  qed
  with ret init show ?thesis
    by blast
qed

subsection \<open>What the loop leaves behind when it returns\<close>

lemma topic_first_append:
  "topic_first t p xs \<Longrightarrow> topic_first t p ys \<Longrightarrow> topic_first t p (xs @ ys)"
proof (induction t p xs rule: topic_first.induct)
  case (1 t p)
  then show ?case by simp
next
  case (2 t p c cs)
  then show ?case
    by (cases cs) (auto split: if_splits)
qed

lemma topic_first_attempt:
  assumes "topic_first topic (message_t message (to_size_t N)) ext"
    and "calls sock = log @ ext"
  shows "\<exists>ext'. calls (snd (attempt message N topic sock)) = log @ ext' \<and> ext' \<noteq> [] \<and>
           topic_first topic (message_t message (to_size_t N)) ext'"
proof -
  let ?one = "if accepts sock (length (calls sock))
        then [SendCall topic True True,
              SendCall (message_t message (to_size_t N)) False
                (accepts sock (Suc (length (calls sock))))]
        else [SendCall topic True False]"
  have "topic_first topic (message_t message (to_size_t N)) ?one"
    by simp
  with assms(1) have "topic_first topic (message_t message (to_size_t N)) (ext @ ?one)"
    by (rule topic_first_append)
  moreover have "calls (snd (attempt message N topic sock)) = log @ (ext @ ?one)"
    unfolding attempt_calls assms(2) by simp
  moreover have "ext @ ?one \<noteq> []"
    by simp
  ultimately show ?thesis
    by blast
qed

lemma send_loop_calls:
  assumes "send_loop message N timeout topic start_time st = Some y"
  shows "\<exists>ext. calls (snd (snd y)) = calls (snd st) @ ext \<and> ext \<noteq> [] \<and>
           topic_first topic (message_t message (to_size_t N)) ext"
proof (rule send_loop_rule [OF assms, where
      I = "\<lambda>s. \<exists>ext. calls (snd s) = calls (snd st) @ ext \<and>
             topic_first topic (message_t message (to_size_t N)) ext"])
  show "\<exists>ext. calls (snd st) = calls (snd st) @ ext \<and>
          topic_first topic (message_t message (to_size_t N)) ext"
    by (rule exI [of _ "[]"]) simp
next
  fix s :: "steady_clock \<times> socket_t"
  assume "\<exists>ext. calls (snd s) = calls (snd st) @ ext \<and>
            topic_first topic (message_t message (to_size_t N)) ext"
  then obtain ext where ext: "calls (snd s) = calls (snd st) @ ext"
    "topic_first topic (message_t message (to_size_t N)) ext"
    by blast
  from topic_first_attempt [OF ext(2) ext(1)]
  show "\<exists>ext. calls (snd (snd (now (fst s)), snd (attempt message N topic (snd s)))) =
            calls (snd st) @ ext \<and>
          topic_first topic (message_t message (to_size_t N)) ext"
    by auto
  from topic_first_attempt [OF ext(2) ext(1)]
  show "\<exists>ext. calls (snd (snd (fst (attempt message N topic (snd s)), snd (now (fst s)),
                    snd (attempt message N topic (snd s))))) = calls (snd st) @ ext \<and>
          ext \<noteq> [] \<and> topic_first topic (message_t message (to_size_t N)) ext"
    by simp
qed

lemma send_loop_pending:
  assumes "send_loop message N timeout topic start_time st = Some y"
  shows "pending (snd (snd y)) = []"
  by (rule send_loop_rule [OF assms, where I = "\<lambda>s. True"]) (simp_all add: attempt_pending)

lemma send_loop_accepts:
  assumes "send_loop message N timeout topic start_time st = Some y"
  shows "accepts (snd (snd y)) = accepts (snd st)"
  by (rule send_loop_rule [OF assms, where I = "\<lambda>s. accepts (snd s) = accepts (snd st)"])
    (simp_all add: attempt_accepts)

lemma send_loop_queued:
  assumes "send_loop message N timeout topic start_time st = Some y"
    and "pending (snd st) = []"
  shows "queued (snd (snd y)) =
           (if fst y then queued (snd st) @ [[topic, message_t message (to_size_t N)]]
            else queued (snd st))"
  by (rule send_loop_rule [OF assms(1), where
        I = "\<lambda>s. pending (snd s) = [] \<and> queued (snd s) = queued (snd st)"])
    (simp_all add: assms(2) attempt_pending attempt_queued)

lemma send_loop_last_call:
  assumes "send_loop message N timeout topic start_time st = Some y"
  shows "accepted (last (calls (snd (snd y)))) = fst y"
  by (rule send_loop_rule [OF assms, where I = "\<lambda>s. True"])
    (simp_all add: attempt_calls attempt_fst)

lemma send_loop_deadline:
  assumes "send_loop message N timeout topic start_time st = Some y"
  shows "fst y \<or> \<not> elapsed_less (reading (fst (snd y)) - start_time) timeout"
  by (rule send_loop_rule [OF assms, where I = "\<lambda>s. True"]) (auto simp add: now_reading)

subsection \<open>Timeouts that end the loop after one pass\<close>

lemma to_nanoseconds_no_block: "to_nanoseconds s_no_block = 0"
  by (simp add: to_nanoseconds_def s_no_block_def)

lemma to_nanoseconds_block: "to_nanoseconds s_block = - 1000000"
  by (simp add: to_nanoseconds_def s_block_def)

lemma send_loop_single_pass:
  assumes "to_nanoseconds timeout \<le> 0"
    and "start_time \<le> reading (fst st)"
  shows "send_loop message N timeout topic start_time st =
           Some (fst (attempt message N topic (snd st)), snd (now (fst st)),
                 snd (attempt message N topic (snd st)))"
proof -
  have "reading (fst st) \<le> fst (now (fst st))"
    by (rule now_not_before)
  with assms have "\<not> elapsed_less (fst (now (fst st)) - start_time) timeout"
    by (simp add: elapsed_less_def)
  then show ?thesis
    by (subst send_loop.simps) (simp add: Let_def)
qed

subsection \<open>How one pass ends\<close>

lemma send_loop_succeeds:
  assumes "fst (attempt message N topic (snd st))"
  shows "send_loop message N timeout topic start_time st =
           Some (True, snd (now (fst st)), snd (attempt message N topic (snd st)))"
  using assms by (subst send_loop.simps) (simp add: Let_def)

lemma send_loop_retries:
  assumes "\<not> fst (attempt message N topic (snd st))"
    and "elapsed_less (fst (now (fst st)) - start_time) timeout"
  shows "send_loop message N timeout topic start_time st =
           send_loop message N timeout topic start_time
             (snd (now (fst st)), snd (attempt message N topic (snd st)))"
  using assms by (subst send_loop.simps) (simp add: Let_def)

lemma send_loop_exhausted:
  assumes "\<not> fst (attempt message N topic (snd st))"
    and "\<not> elapsed_less (fst (now (fst st)) - start_time) timeout"
  shows "send_loop message N timeout topic start_time st =
           Some (False, snd (now (fst st)), snd (attempt message N topic (snd st)))"
  using assms by (subst send_loop.simps) (simp add: Let_def)

subsection \<open>The delivery routine\<close>

lemma send_impl_returns:
  assumes "send_impl message N timeout topic (clk, self) = Some (r, clk', self')"
  obtains res sock where
    "send_loop message N timeout topic (fst (now clk)) (snd (now clk), m_socket self) =
       Some (res, clk', sock)"
    "r = (if res then Inr () else Inl (SendTimeoutExpired (to_int32 timeout)))"
    "self' = self\<lparr>m_socket := sock\<rparr>"
  using assms by (auto simp add: send_impl_def Let_def split: option.splits if_splits)

lemma send_impl_exhausted:
  assumes "send_loop message N timeout topic (fst (now clk)) (snd (now clk), m_socket self) =
             Some (False, clk', sock)"
  shows "send_impl message N timeout topic (clk, self) =
           Some (Inl (SendTimeoutExpired (to_int32 timeout)), clk', self\<lparr>m_socket := sock\<rparr>)"
  using assms by (simp add: send_impl_def Let_def)

lemma send_impl_outcome:
  assumes "send_impl message N timeout topic (clk, self) = Some (r, clk', self')"
  shows "r = Inr () \<or> r = Inl (SendTimeoutExpired (to_int32 timeout))"
  using assms by (rule send_impl_returns) auto

lemma send_impl_object:
  assumes "send_impl message N timeout topic (clk, self) = Some (r, clk', self')"
  shows "self' = self\<lparr>m_socket := m_socket self'\<rparr>"
  using assms by (rule send_impl_returns) simp

lemma send_impl_counters:
  assumes "send_impl message N timeout topic (clk, self) = Some (r, clk', self')"
  shows "m_bytes self' = m_bytes self" and "m_messages self' = m_messages self"
  using assms by (rule send_impl_returns, simp)+

lemma send_impl_single_pass:
  assumes "to_nanoseconds timeout \<le> 0"
  shows "send_impl message N timeout topic (clk, self) =
           Some (if fst (attempt message N topic (m_socket self)) then Inr ()
                 else Inl (SendTimeoutExpired (to_int32 timeout)),
                 snd (now (snd (now clk))),
                 self\<lparr>m_socket := snd (attempt message N topic (m_socket self))\<rparr>)"
proof -
  have "fst (now clk) \<le> reading (fst (snd (now clk), m_socket self))"
    by (simp add: now_reading)
  from send_loop_single_pass [OF assms this]
  show ?thesis
    by (simp add: send_impl_def Let_def)
qed

lemma send_impl_block:
  "send_impl message N s_block topic (clk, self) =
     Some (if fst (attempt message N topic (m_socket self)) then Inr ()
           else Inl (SendTimeoutExpired (- 1)),
           snd (now (snd (now clk))),
           self\<lparr>m_socket := snd (attempt message N topic (m_socket self))\<rparr>)"
  using send_impl_single_pass [of s_block message N topic clk self]
  by (simp add: to_nanoseconds_block) (simp add: to_int32_def s_block_def)

lemma to_int32_in_range:
  assumes "- 2147483648 \<le> x" and "x < 2147483648"
  shows "to_int32 x = x"
  using assms by (simp add: to_int32_def)

subsection \<open>The contract layer\<close>

lemma send_not_ready:
  assumes "\<not> can_send self"
  shows "send message message_size timeout metadata no_tmoexcept_mode (clk, self) =
           Some (Inl KnownStateForbidsSend, clk, self)"
  using assms by (simp add: send_def)

lemma send_delegates:
  assumes "can_send self" and "message \<noteq> None" and "message_size \<noteq> 0"
    and "send_impl message message_size timeout metadata (clk, self) = Some (r0, clk0, self0)"
  shows "send message message_size timeout metadata no_tmoexcept_mode (clk, self) =
           Some (if r0 = Inr () then Inr True
                 else if no_tmoexcept_mode then Inr False
                 else Inl (SendTimeoutExpired (to_int32 timeout)),
                 clk0,
                 if r0 = Inr ()
                 then self0\<lparr>m_bytes := m_bytes self0 + word_of_int message_size,
                            m_messages := m_messages self0 + 1\<rparr>
                 else self0)"
  using assms send_impl_outcome [OF assms(4)] by (auto simp add: send_def)

lemma send_diverges:
  assumes "can_send self" and "message \<noteq> None" and "message_size \<noteq> 0"
    and "send_impl message message_size timeout metadata (clk, self) = None"
  shows "send message message_size timeout metadata no_tmoexcept_mode (clk, self) = None"
  using assms by (simp add: send_def)

lemma send_cases:
  assumes "send message message_size timeout metadata no_tmoexcept_mode (clk, self) =
             Some (r, clk', self')"
  obtains
    (rejected) "r \<noteq> Inr True" "m_bytes self' = m_bytes self" "m_messages self' = m_messages self"
  | (no_op) "message_size = 0" "r = Inr True" "clk' = clk" "self' = self"
  | (sent) "message_size \<noteq> 0" "r = Inr True"
      "m_bytes self' = m_bytes self + word_of_int message_size"
      "m_messages self' = m_messages self + 1"
proof (cases "can_send self \<and> \<not> (message = None \<and> message_size \<noteq> 0)")
  case False
  with assms have "r \<noteq> Inr True \<and> self' = self"
    by (auto simp add: send_def split: if_splits)
  then show ?thesis
    by (intro rejected) simp_all
next
  case pre: True
  show ?thesis
  proof (cases "message_size = 0")
    case True
    with pre assms show ?thesis
      by (intro no_op) (auto simp add: send_def)
  next
    case False
    with pre have ready: "can_send self" "message \<noteq> None" "message_size \<noteq> 0"
      by auto
    show ?thesis
    proof (cases "send_impl message message_size timeout metadata (clk, self)")
      case None
      with ready assms show ?thesis
        by (simp add: send_diverges)
    next
      case (Some y)
      then obtain r0 clk0 self0 where
        impl: "send_impl message message_size timeout metadata (clk, self) =
                 Some (r0, clk0, self0)"
        by (cases y) auto
      note counters = send_impl_counters [OF impl]
      show ?thesis
      proof (cases "r0 = Inr ()")
        case True
        with assms counters ready show ?thesis
          by (intro sent) (auto simp add: send_delegates [OF ready impl])
      next
        case False
        with assms counters ready show ?thesis
          by (intro rejected) (auto simp add: send_delegates [OF ready impl] split: if_splits)
      qed
    qed
  qed
qed

subsection \<open>The ready flag\<close>

lemma can_send_new: "can_send (ZmqSenderImpl_new type chan indeterminate) = indeterminate"
  by (simp add: can_send_def ZmqSenderImpl_new_def)

lemma can_send_connect: "can_send (connect_for_sends connection_info self)"
  by (simp add: can_send_def connect_for_sends_def Let_def)

lemma can_send_send_impl:
  assumes "send_impl message N timeout topic (clk, self) = Some (r, clk', self')"
  shows "can_send self' = can_send self"
  using assms by (rule send_impl_returns) (simp add: can_send_def)

lemma can_send_send:
  assumes "send message message_size timeout metadata no_tmoexcept_mode (clk, self) =
             Some (r, clk', self')"
  shows "can_send self' = can_send self"
proof (cases "can_send self \<and> message \<noteq> None \<and> message_size \<noteq> 0")
  case False
  with assms have "self' = self"
    by (auto simp add: send_def split: if_splits)
  then show ?thesis
    by simp
next
  case True
  show ?thesis
  proof (cases "send_impl message message_size timeout metadata (clk, self)")
    case None
    with True assms show ?thesis
      by (simp add: send_diverges)
  next
    case (Some y)
    then obtain r0 clk0 self0 where
      impl: "send_impl message message_size timeout metadata (clk, self) = Some (r0, clk0, self0)"
      by (cases y) auto
    from True assms have "can_send self' = can_send self0"
      by (auto simp add: send_delegates [OF _ _ _ impl] can_send_def split: if_splits)
    with can_send_send_impl [OF impl] show ?thesis
      by simp
  qed
qed

subsection \<open>Counter arithmetic\<close>

lemma unat_add_to_size_t:
  "unat (a + word_of_int n :: 64 word) = (unat a + to_size_t n) mod 2 ^ 64"
  by (simp only: unat_word_ariths(1) to_size_t_def) simp

lemma unat_add_to_size_t_exact:
  assumes "unat a + to_size_t n < 2 ^ 64"
  shows "unat (a + word_of_int n :: 64 word) = unat a + to_size_t n"
  using assms by (simp only: unat_add_to_size_t mod_less)

lemma unat_add_one_mod: "unat (a + 1 :: 64 word) = (unat a + 1) mod 2 ^ 64"
  by (simp only: unat_word_ariths(1)) simp

lemma to_size_t_nonneg:
  assumes "0 \<le> n" and "n < 2 ^ 64"
  shows "to_size_t n = nat n"
proof -
  have "word_of_int n = (of_nat (nat n) :: 64 word)"
    using assms(1) by (intro word_of_int_nat)
  moreover have "nat n < 2 ^ LENGTH(64)"
    using assms by simp
  ultimately show ?thesis
    by (simp only: to_size_t_def unat_of_nat mod_less)
qed

lemma unat_add_one:
  assumes "unat a + 1 < 2 ^ 64"
  shows "unat (a + 1 :: 64 word) = unat a + 1"
proof -
  have "unat a + unat (1 :: 64 word) < 2 ^ LENGTH(64)"
    using assms by simp
  then have "unat (a + 1) = unat a + unat (1 :: 64 word)"
    by (rule unat_add_lem [THEN iffD1])
  then show ?thesis
    by simp
qed

subsection \<open>Concrete runs\<close>

lemma example_sender_eq:
  "example_sender =
     \<lparr>m_bytes = 0, m_messages = 0,
      m_socket = \<lparr>kind = push, sndtimeo = Some 1, endpoints = [''inproc://default''],
                  pending = [], queued = [], calls = [], accepts = late_channel\<rparr>,
      m_connection_string = ''inproc://default'', m_socket_connected = True\<rparr>"
  by (simp add: example_sender_def connect_for_sends_def ZmqSenderImpl_new_def socket_new_def
      socket_setsockopt_SNDTIMEO_def socket_bind_def json_value_def)

lemmas run_defs = example_clock_def stalled_clock_def example_sender_eq late_channel_def
  attempt_def socket_send_def message_t_def to_size_t_def now_def elapsed_less_def
  to_nanoseconds_def to_int32_def s_block_def s_no_block_def Let_def

lemma example_retry:
  "send_impl (Some ''xyz'') 2 5 [] (example_clock, example_sender) =
     Some (Inr (),
       \<lparr>reading = 3000, reads = 3, passes = (\<lambda>_. 1000)\<rparr>,
       example_sender\<lparr>m_socket := (m_socket example_sender)
          \<lparr>queued := [[[], ''xy'']],
           calls := [SendCall [] True False, SendCall [] True True, SendCall ''xy'' False True]\<rparr>\<rparr>)"
  unfolding send_impl_def
  apply (subst send_loop.simps)
  apply (subst send_loop.simps)
  apply (simp add: run_defs)
  done

lemma example_no_block:
  "send_impl (Some ''xyz'') 2 s_no_block [] (example_clock, example_sender) =
     Some (Inl (SendTimeoutExpired 0),
       \<lparr>reading = 2000, reads = 2, passes = (\<lambda>_. 1000)\<rparr>,
       example_sender\<lparr>m_socket := (m_socket example_sender)
          \<lparr>calls := [SendCall [] True False]\<rparr>\<rparr>)"
  by (simp add: send_impl_single_pass to_nanoseconds_no_block)
    (simp add: run_defs)

lemma example_stalled:
  "send_impl (Some ''xyz'') 2 2147483648 ''t'' (stalled_clock, example_sender) =
     Some (Inl (SendTimeoutExpired (- 2147483648)),
       \<lparr>reading = 6000000000000000, reads = 2, passes = (\<lambda>_. 3000000000000000)\<rparr>,
       example_sender\<lparr>m_socket := (m_socket example_sender)
          \<lparr>calls := [SendCall ''t'' True False]\<rparr>\<rparr>)"
  unfolding send_impl_def
  apply (subst send_loop.simps)
  apply (simp add: run_defs)
  done

lemma example_send:
  "send (Some ''xyz'') 2 5 [] False (example_clock, example_sender) =
     Some (Inr True,
       \<lparr>reading = 3000, reads = 3, passes = (\<lambda>_. 1000)\<rparr>,
       example_sender\<lparr>m_bytes := 2, m_messages := 1,
         m_socket := (m_socket example_sender)
          \<lparr>queued := [[[], ''xy'']],
           calls := [SendCall [] True False, SendCall [] True True, SendCall ''xy'' False True]\<rparr>\<rparr>)"
proof -
  have "can_send example_sender"
    by (simp add: can_send_def example_sender_eq)
  from send_delegates [OF this _ _ example_retry, of False]
  show ?thesis
    by (simp add: example_sender_eq)
qed

lemma full_sender_eq:
  "full_sender =
     \<lparr>m_bytes = 18446744073709551615, m_messages = 0,
      m_socket = \<lparr>kind = push, sndtimeo = Some 1, endpoints = [''inproc://default''],
                  pending = [], queued = [], calls = [], accepts = late_channel\<rparr>,
      m_connection_string = ''inproc://default'', m_socket_connected = True\<rparr>"
  by (simp add: full_sender_def example_sender_eq)

lemma full_retry:
  "send_impl (Some ''xyz'') 2 5 [] (example_clock, full_sender) =
     Some (Inr (),
       \<lparr>reading = 3000, reads = 3, passes = (\<lambda>_. 1000)\<rparr>,
       full_sender\<lparr>m_socket := (m_socket full_sender)
          \<lparr>queued := [[[], ''xy'']],
           calls := [SendCall [] True False, SendCall [] True True, SendCall ''xy'' False True]\<rparr>\<rparr>)"
  unfolding send_impl_def
  apply (subst send_loop.simps)
  apply (subst send_loop.simps)
  apply (simp add: full_sender_eq example_clock_def late_channel_def
      attempt_def socket_send_def message_t_def to_size_t_def now_def elapsed_less_def
      to_nanoseconds_def Let_def)
  done

lemma full_send:
  "send (Some ''xyz'') 2 5 [] False (example_clock, full_sender) =
     Some (Inr True,
       \<lparr>reading = 3000, reads = 3, passes = (\<lambda>_. 1000)\<rparr>,
       full_sender\<lparr>m_bytes := 1, m_messages := 1,
         m_socket := (m_socket full_sender)
          \<lparr>queued := [[[], ''xy'']],
           calls := [SendCall [] True False, SendCall [] True True, SendCall ''xy'' False True]\<rparr>\<rparr>)"
proof -
  have "can_send full_sender"
    by (simp add: can_send_def full_sender_eq)
  from send_delegates [OF this _ _ full_retry, of False]
  show ?thesis
    by (simp add: full_sender_eq)
qed

section \<open>The claims\<close>

subsection \<open>C1: readiness\<close>

text \<open>
  C1. The constructor of \<^verbatim>\<open>ZmqSenderImpl\<close> gives \<^verbatim>\<open>m_socket_connected\<close> no value, so
  \<^verbatim>\<open>can_send()\<close> on an object for which \<^verbatim>\<open>connect_for_sends\<close> was never called returns
  whatever the member's storage held; where that is a non-zero byte the object reports
  ready. (The other parts of the claim hold: see \<open>can_send_connect\<close>,
  \<open>can_send_send_impl\<close>, \<open>can_send_send\<close> and \<open>send_not_ready\<close>.)
\<close>

theorem can_send_before_connect:
  "can_send (ZmqSenderImpl_new Push late_channel True)
   \<and> endpoints (m_socket (ZmqSenderImpl_new Push late_channel True)) = []"
  by (simp add: can_send_new) (simp add: ZmqSenderImpl_new_def socket_new_def)

subsection \<open>C2: reporting a timeout\<close>

text \<open>
  C2. When the delivery routine exhausts the timeout window it raises
  \<^verbatim>\<open>SendTimeoutExpired\<close>, but not always carrying the timeout value: the routine passes
  the 64-bit \<^verbatim>\<open>timeout.count()\<close> to an issue whose field is an \<^verbatim>\<open>int\<close>, so the count
  is narrowed. A timeout of \<open>2\<^sup>3\<^sup>1\<close> ms that expires is reported as \<open>-2\<^sup>3\<^sup>1\<close>, and the
  issue's text reads "timeout period was -2147483648 milliseconds".
\<close>

theorem expired_timeout_is_narrowed:
  "map_option fst (send_impl (Some ''xyz'') 2 2147483648 ''t'' (stalled_clock, example_sender))
     = Some (Inl (SendTimeoutExpired (- 2147483648)))
   \<and> map_option fst (send_impl (Some ''xyz'') 2 2147483648 ''t'' (stalled_clock, example_sender))
     \<noteq> Some (Inl (SendTimeoutExpired 2147483648))"
  by (simp add: example_stalled)

text \<open>
  What does hold of the outcomes. A pass that fails when the elapsed time is no longer less
  than the timeout ends the loop with failure, and a loop that ends with failure makes the
  routine raise \<^verbatim>\<open>SendTimeoutExpired\<close>. Conversely a delivery that returns has either
  succeeded or raised that issue; it raises exactly when its last pass was not accepted,
  and then the loop's deadline test had failed. The value carried is the timeout itself
  whenever that fits in 32 bits. One layer up, for a ready sender, a non-null buffer and a
  non-zero size, \<^verbatim>\<open>send\<close> returns true on success, returns false on the timeout when
  \<^verbatim>\<open>no_tmoexcept_mode\<close> is set, and raises the issue otherwise. The two issues of
  \<^verbatim>\<open>send\<close> itself are raised whatever the mode.
\<close>

lemma send_outcomes:
  "(\<not> fst (attempt message N topic sock) \<and>
      \<not> elapsed_less (fst (now c) - start_time) timeout \<longrightarrow>
      send_loop message N timeout topic start_time (c, sock) =
        Some (False, snd (now c), snd (attempt message N topic sock)))
   \<and> (send_loop message N timeout topic (fst (now clk)) (snd (now clk), m_socket self) =
        Some (False, clk', sock') \<longrightarrow>
      send_impl message N timeout topic (clk, self) =
        Some (Inl (SendTimeoutExpired (to_int32 timeout)), clk', self\<lparr>m_socket := sock'\<rparr>))
   \<and> (send_impl message N timeout topic (clk, self) = Some (r, clk', self') \<longrightarrow>
     (r = Inr () \<or> r = Inl (SendTimeoutExpired (to_int32 timeout)))
     \<and> ((r = Inr ()) = accepted (last (calls (m_socket self'))))
     \<and> (r \<noteq> Inr () \<longrightarrow> \<not> elapsed_less (reading clk' - fst (now clk)) timeout)
     \<and> (- 2147483648 \<le> timeout \<and> timeout < 2147483648 \<longrightarrow> to_int32 timeout = timeout)
     \<and> (can_send self \<and> message \<noteq> None \<and> N \<noteq> 0 \<longrightarrow>
          send message N timeout topic no_tmoexcept_mode (clk, self) =
            Some (case r of
                    Inr u \<Rightarrow> Inr True
                  | Inl e \<Rightarrow> if no_tmoexcept_mode then Inr False else Inl e,
                  clk',
                  if r = Inr ()
                  then self'\<lparr>m_bytes := m_bytes self' + word_of_int N,
                             m_messages := m_messages self' + 1\<rparr>
                  else self')))
   \<and> (\<not> can_send self \<longrightarrow>
        send message N timeout topic no_tmoexcept_mode (clk, self) =
          Some (Inl KnownStateForbidsSend, clk, self))
   \<and> (can_send self \<and> message = None \<and> N \<noteq> 0 \<longrightarrow>
        send message N timeout topic no_tmoexcept_mode (clk, self) =
          Some (Inl NullPointerPassedToSend, clk, self))"
proof (intro impI conjI)
  show "send_loop message N timeout topic start_time (c, sock) =
          Some (False, snd (now c), snd (attempt message N topic sock))"
    if "\<not> fst (attempt message N topic sock) \<and>
        \<not> elapsed_less (fst (now c) - start_time) timeout"
    using send_loop_exhausted [of message N topic "(c, sock)" start_time timeout] that
    by simp
  show "send_impl message N timeout topic (clk, self) =
          Some (Inl (SendTimeoutExpired (to_int32 timeout)), clk', self\<lparr>m_socket := sock'\<rparr>)"
    if "send_loop message N timeout topic (fst (now clk)) (snd (now clk), m_socket self) =
          Some (False, clk', sock')"
    using that by (rule send_impl_exhausted)
  show "send message N timeout topic no_tmoexcept_mode (clk, self) =
          Some (Inl KnownStateForbidsSend, clk, self)" if "\<not> can_send self"
    using that by (rule send_not_ready)
  show "send message N timeout topic no_tmoexcept_mode (clk, self) =
          Some (Inl NullPointerPassedToSend, clk, self)"
    if "can_send self \<and> message = None \<and> N \<noteq> 0"
    using that by (simp add: send_def)
next
  assume ret: "send_impl message N timeout topic (clk, self) = Some (r, clk', self')"
  then obtain res sock where
    loop: "send_loop message N timeout topic (fst (now clk)) (snd (now clk), m_socket self) =
       Some (res, clk', sock)"
    and r: "r = (if res then Inr () else Inl (SendTimeoutExpired (to_int32 timeout)))"
    and self': "self' = self\<lparr>m_socket := sock\<rparr>"
    by (rule send_impl_returns)
  from r show outcome: "r = Inr () \<or> r = Inl (SendTimeoutExpired (to_int32 timeout))"
    by simp
  from send_loop_last_call [OF loop] r self'
  show "(r = Inr ()) = accepted (last (calls (m_socket self')))"
    by simp
  {
    assume "r \<noteq> Inr ()"
    with r have "\<not> res" by (simp split: if_splits)
    with send_loop_deadline [OF loop]
    show "\<not> elapsed_less (reading clk' - fst (now clk)) timeout"
      by simp
  }
  {
    assume "- 2147483648 \<le> timeout \<and> timeout < 2147483648"
    then show "to_int32 timeout = timeout"
      by (simp add: to_int32_in_range)
  }
  {
    assume "can_send self \<and> message \<noteq> None \<and> N \<noteq> 0"
    with ret outcome
    show "send message N timeout topic no_tmoexcept_mode (clk, self) =
            Some (case r of
                    Inr u \<Rightarrow> Inr True
                  | Inl e \<Rightarrow> if no_tmoexcept_mode then Inr False else Inl e,
                  clk',
                  if r = Inr ()
                  then self'\<lparr>m_bytes := m_bytes self' + word_of_int N,
                             m_messages := m_messages self' + 1\<rparr>
                  else self')"
      by (auto simp add: send_def)
  }
qed

lemma send_outcomes_example:
  "can_send example_sender
   \<and> map_option fst (send (Some ''xyz'') 2 s_no_block [] True (example_clock, example_sender))
       = Some (Inr False)
   \<and> map_option fst (send (Some ''xyz'') 2 s_no_block [] False (example_clock, example_sender))
       = Some (Inl (SendTimeoutExpired 0))
   \<and> to_int32 s_no_block = s_no_block"
  using send_outcomes
      [of "Some ''xyz''" 2 "[]" _ _ _ s_no_block example_clock example_sender _ _
        "Inl (SendTimeoutExpired 0)" _ True, THEN conjunct2, THEN conjunct2]
    send_outcomes
      [of "Some ''xyz''" 2 "[]" _ _ _ s_no_block example_clock example_sender _ _
        "Inl (SendTimeoutExpired 0)" _ False, THEN conjunct2, THEN conjunct2]
    example_no_block
  by (simp add: can_send_def example_sender_eq s_no_block_def)

subsection \<open>C3: counters\<close>

text \<open>
  C3, as the claim states it, fails: the counters are \<^verbatim>\<open>size_t\<close>, so a successful send
  of 2 bytes on a byte counter that stands at \<open>2\<^sup>6\<^sup>4 - 1\<close> leaves it at 1. The counter
  has not grown by the size, and it has become smaller.
\<close>

theorem counter_wraps_counterexample:
  "map_option fst (send (Some ''xyz'') 2 5 [] False (example_clock, full_sender)) = Some (Inr True)
   \<and> m_bytes full_sender = 18446744073709551615
   \<and> map_option (m_bytes \<circ> snd \<circ> snd)
        (send (Some ''xyz'') 2 5 [] False (example_clock, full_sender)) = Some 1
   \<and> (1 :: 64 word) < 18446744073709551615"
  by (simp add: full_send) (simp add: full_sender_eq)

text \<open>
  C3, amended. When \<^verbatim>\<open>send\<close> returns true for a non-zero size, the byte counter has
  grown by the size and the message counter by one in the arithmetic of \<^verbatim>\<open>size_t\<close>,
  that is modulo \<open>2\<^sup>6\<^sup>4\<close>, the size being converted to \<^verbatim>\<open>size_t\<close> (a size from 0 up is
  its own conversion). On every other return (an issue, the false of
  \<^verbatim>\<open>no_tmoexcept_mode\<close>, the zero-size no-op) both counters are unchanged. Whenever the
  sum stays below \<open>2\<^sup>6\<^sup>4\<close> the growth is the exact sum and the counter has not become
  smaller.
\<close>

theorem counters_follow_successful_sends:
  "(send message message_size timeout metadata no_tmoexcept_mode (clk, self) =
      Some (r, clk', self') \<longrightarrow>
     (r = Inr True \<and> message_size \<noteq> 0 \<longrightarrow>
        m_bytes self' = m_bytes self + word_of_int message_size \<and>
        m_messages self' = m_messages self + 1 \<and>
        unat (m_bytes self') = (unat (m_bytes self) + to_size_t message_size) mod 2 ^ 64 \<and>
        unat (m_messages self') = (unat (m_messages self) + 1) mod 2 ^ 64)
     \<and> (r = Inr True \<and> message_size \<noteq> 0 \<and>
          unat (m_bytes self) + to_size_t message_size < 2 ^ 64 \<longrightarrow>
          unat (m_bytes self') = unat (m_bytes self) + to_size_t message_size)
     \<and> (r = Inr True \<and> message_size \<noteq> 0 \<and> unat (m_messages self) + 1 < 2 ^ 64 \<longrightarrow>
          unat (m_messages self') = unat (m_messages self) + 1)
     \<and> (r \<noteq> Inr True \<or> message_size = 0 \<longrightarrow>
          m_bytes self' = m_bytes self \<and> m_messages self' = m_messages self)
     \<and> (unat (m_bytes self) + to_size_t message_size < 2 ^ 64 \<longrightarrow>
          m_bytes self \<le> m_bytes self')
     \<and> (unat (m_messages self) + 1 < 2 ^ 64 \<longrightarrow> m_messages self \<le> m_messages self'))
   \<and> (0 \<le> message_size \<and> message_size < 2 ^ 64 \<longrightarrow>
        to_size_t message_size = nat message_size)"
proof (intro conjI)
  show "0 \<le> message_size \<and> message_size < 2 ^ 64 \<longrightarrow>
          to_size_t message_size = nat message_size"
    by (simp add: to_size_t_nonneg)
  show "send message message_size timeout metadata no_tmoexcept_mode (clk, self) =
      Some (r, clk', self') \<longrightarrow>
     (r = Inr True \<and> message_size \<noteq> 0 \<longrightarrow>
        m_bytes self' = m_bytes self + word_of_int message_size \<and>
        m_messages self' = m_messages self + 1 \<and>
        unat (m_bytes self') = (unat (m_bytes self) + to_size_t message_size) mod 2 ^ 64 \<and>
        unat (m_messages self') = (unat (m_messages self) + 1) mod 2 ^ 64)
     \<and> (r = Inr True \<and> message_size \<noteq> 0 \<and>
          unat (m_bytes self) + to_size_t message_size < 2 ^ 64 \<longrightarrow>
          unat (m_bytes self') = unat (m_bytes self) + to_size_t message_size)
     \<and> (r = Inr True \<and> message_size \<noteq> 0 \<and> unat (m_messages self) + 1 < 2 ^ 64 \<longrightarrow>
          unat (m_messages self') = unat (m_messages self) + 1)
     \<and> (r \<noteq> Inr True \<or> message_size = 0 \<longrightarrow>
          m_bytes self' = m_bytes self \<and> m_messages self' = m_messages self)
     \<and> (unat (m_bytes self) + to_size_t message_size < 2 ^ 64 \<longrightarrow>
          m_bytes self \<le> m_bytes self')
     \<and> (unat (m_messages self) + 1 < 2 ^ 64 \<longrightarrow> m_messages self \<le> m_messages self')"
  proof
    assume "send message message_size timeout metadata no_tmoexcept_mode (clk, self) =
              Some (r, clk', self')"
    then show "(r = Inr True \<and> message_size \<noteq> 0 \<longrightarrow>
        m_bytes self' = m_bytes self + word_of_int message_size \<and>
        m_messages self' = m_messages self + 1 \<and>
        unat (m_bytes self') = (unat (m_bytes self) + to_size_t message_size) mod 2 ^ 64 \<and>
        unat (m_messages self') = (unat (m_messages self) + 1) mod 2 ^ 64)
     \<and> (r = Inr True \<and> message_size \<noteq> 0 \<and>
          unat (m_bytes self) + to_size_t message_size < 2 ^ 64 \<longrightarrow>
          unat (m_bytes self') = unat (m_bytes self) + to_size_t message_size)
     \<and> (r = Inr True \<and> message_size \<noteq> 0 \<and> unat (m_messages self) + 1 < 2 ^ 64 \<longrightarrow>
          unat (m_messages self') = unat (m_messages self) + 1)
     \<and> (r \<noteq> Inr True \<or> message_size = 0 \<longrightarrow>
          m_bytes self' = m_bytes self \<and> m_messages self' = m_messages self)
     \<and> (unat (m_bytes self) + to_size_t message_size < 2 ^ 64 \<longrightarrow>
          m_bytes self \<le> m_bytes self')
     \<and> (unat (m_messages self) + 1 < 2 ^ 64 \<longrightarrow> m_messages self \<le> m_messages self')"
    proof (cases rule: send_cases)
      case rejected
      then show ?thesis by simp
    next
      case no_op
      then show ?thesis by simp
    next
      case sent
      have bytes_mod: "unat (m_bytes self') =
          (unat (m_bytes self) + to_size_t message_size) mod 2 ^ 64"
        unfolding sent(3) by (rule unat_add_to_size_t)
      have messages_mod: "unat (m_messages self') = (unat (m_messages self) + 1) mod 2 ^ 64"
        unfolding sent(4) by (rule unat_add_one_mod)
      have bytes_exact: "unat (m_bytes self') = unat (m_bytes self) + to_size_t message_size"
        if "unat (m_bytes self) + to_size_t message_size < 2 ^ 64"
        using that unfolding sent(3) by (rule unat_add_to_size_t_exact)
      have messages_exact: "unat (m_messages self') = unat (m_messages self) + 1"
        if "unat (m_messages self) + 1 < 2 ^ 64"
        using that unfolding sent(4) by (rule unat_add_one)
      have "m_bytes self \<le> m_bytes self'"
        if "unat (m_bytes self) + to_size_t message_size < 2 ^ 64"
        using bytes_exact [OF that] by (simp add: word_le_nat_alt)
      moreover have "m_messages self \<le> m_messages self'"
        if "unat (m_messages self) + 1 < 2 ^ 64"
        using messages_exact [OF that] by (simp add: word_le_nat_alt)
      ultimately show ?thesis
        using sent bytes_mod messages_mod bytes_exact messages_exact by simp
    qed
  qed
qed

theorem counters_follow_successful_sends_witness:
  "map_option (\<lambda>y. (fst y, m_bytes (snd (snd y)), m_messages (snd (snd y))))
     (send (Some ''xyz'') 2 5 [] False (example_clock, example_sender)) = Some (Inr True, 2, 1)
   \<and> m_bytes example_sender = 0 \<and> m_messages example_sender = 0
   \<and> unat (m_bytes example_sender) + to_size_t 2 < 2 ^ 64"
  using counters_follow_successful_sends
      [of "Some ''xyz''" 2 5 "[]" False example_clock example_sender "Inr True"]
    example_send
  by (simp add: example_sender_eq to_size_t_def)

subsection \<open>C4: framing\<close>

text \<open>
  C4. A socket that has no unfinished multi-part message stays so: the constructor creates
  it that way, \<^verbatim>\<open>connect_for_sends\<close> does not touch the parts, and every delivery that
  returns leaves none pending. On such a socket a successful delivery, however many passes
  it needed, adds exactly one logical message to the channel, made of two parts in this
  order: the topic string's bytes (also when the string is empty), then the \<open>N\<close> bytes of
  the payload. A delivery that times out adds no message. Hence every message on the
  channel has exactly two parts.
\<close>

theorem delivered_message_has_two_parts:
  "pending (m_socket (ZmqSenderImpl_new type chan indeterminate)) = []
   \<and> queued (m_socket (ZmqSenderImpl_new type chan indeterminate)) = []
   \<and> pending (m_socket (connect_for_sends connection_info self)) = pending (m_socket self)
   \<and> queued (m_socket (connect_for_sends connection_info self)) = queued (m_socket self)
   \<and> (send_impl message N timeout topic (clk, self) = Some (r, clk', self') \<longrightarrow>
        pending (m_socket self') = []
        \<and> (pending (m_socket self) = [] \<longrightarrow>
             queued (m_socket self') =
               (if r = Inr ()
                then queued (m_socket self) @ [[topic, message_t message (to_size_t N)]]
                else queued (m_socket self)))
        \<and> (pending (m_socket self) = [] \<and>
             list_all (\<lambda>m. length m = 2) (queued (m_socket self)) \<longrightarrow>
             list_all (\<lambda>m. length m = 2) (queued (m_socket self'))))"
proof (intro conjI impI)
  assume ret: "send_impl message N timeout topic (clk, self) = Some (r, clk', self')"
  then obtain res sock where
    loop: "send_loop message N timeout topic (fst (now clk)) (snd (now clk), m_socket self) =
       Some (res, clk', sock)"
    and r: "r = (if res then Inr () else Inl (SendTimeoutExpired (to_int32 timeout)))"
    and self': "self' = self\<lparr>m_socket := sock\<rparr>"
    by (rule send_impl_returns)
  from send_loop_pending [OF loop] self' show "pending (m_socket self') = []"
    by simp
  show appended: "queued (m_socket self') =
          (if r = Inr ()
           then queued (m_socket self) @ [[topic, message_t message (to_size_t N)]]
           else queued (m_socket self))" if "pending (m_socket self) = []"
    using that send_loop_queued [OF loop] r self' by simp
  show "list_all (\<lambda>m. length m = 2) (queued (m_socket self'))"
    if "pending (m_socket self) = [] \<and>
        list_all (\<lambda>m. length m = 2) (queued (m_socket self))"
    using that appended by simp
qed (simp_all add: ZmqSenderImpl_new_def socket_new_def connect_for_sends_def
    socket_setsockopt_SNDTIMEO_def socket_bind_def Let_def)

theorem delivered_message_has_two_parts_witness:
  "pending (m_socket example_sender) = []
   \<and> map_option (\<lambda>y. (fst y, queued (m_socket (snd (snd y)))))
        (send_impl (Some ''xyz'') 2 5 [] (example_clock, example_sender)) =
       Some (Inr (), [[[], ''xy'']])"
  using delivered_message_has_two_parts
      [of Push late_channel False Map.empty example_sender "Some ''xyz''" 2 5 "[]"
        example_clock "Inr ()"]
    example_retry
  by (simp add: example_sender_eq message_t_def to_size_t_def)

subsection \<open>C5: the no-block timeout\<close>

text \<open>
  C5. Whatever the timeout, a delivery that returns has offered the topic part to the socket
  at least once. With the timeout \<^verbatim>\<open>s_no_block\<close> the delivery always returns after exactly
  one pass through the loop body: it succeeds if that pass got both parts accepted and
  raises \<^verbatim>\<open>SendTimeoutExpired\<close> otherwise; on a socket that does not accept the part
  offered, the single call made is the topic part and the outcome is the timeout.
\<close>

theorem first_attempt_precedes_deadline_check:
  "(send_impl message N timeout topic (clk, self) = Some (r, clk', self') \<longrightarrow>
      (\<exists>c cs. calls (m_socket self') = calls (m_socket self) @ c # cs \<and>
         part c = topic \<and> sndmore c))
   \<and> send_impl message N s_no_block topic (clk, self) =
       Some (if fst (attempt message N topic (m_socket self)) then Inr ()
             else Inl (SendTimeoutExpired 0),
             snd (now (snd (now clk))),
             self\<lparr>m_socket := snd (attempt message N topic (m_socket self))\<rparr>)
   \<and> (\<not> accepts (m_socket self) (length (calls (m_socket self))) \<longrightarrow>
        send_impl message N s_no_block topic (clk, self) =
          Some (Inl (SendTimeoutExpired 0), snd (now (snd (now clk))),
                self\<lparr>m_socket := (m_socket self)
                  \<lparr>calls := calls (m_socket self) @ [SendCall topic True False],
                   pending := []\<rparr>\<rparr>))"
proof (intro conjI impI)
  assume "send_impl message N timeout topic (clk, self) = Some (r, clk', self')"
  then obtain res sock where
    loop: "send_loop message N timeout topic (fst (now clk)) (snd (now clk), m_socket self) =
       Some (res, clk', sock)"
    and self': "self' = self\<lparr>m_socket := sock\<rparr>"
    by (rule send_impl_returns)
  from send_loop_calls [OF loop] obtain ext where
    ext: "calls sock = calls (m_socket self) @ ext" "ext \<noteq> []"
      "topic_first topic (message_t message (to_size_t N)) ext"
    by auto
  from ext(2) obtain c cs where "ext = c # cs"
    by (cases ext) auto
  with ext self' show "\<exists>c cs. calls (m_socket self') = calls (m_socket self) @ c # cs \<and>
         part c = topic \<and> sndmore c"
    by auto
next
  have zero: "to_int32 s_no_block = 0"
    by (simp add: to_int32_def s_no_block_def)
  show one: "send_impl message N s_no_block topic (clk, self) =
       Some (if fst (attempt message N topic (m_socket self)) then Inr ()
             else Inl (SendTimeoutExpired 0),
             snd (now (snd (now clk))),
             self\<lparr>m_socket := snd (attempt message N topic (m_socket self))\<rparr>)"
    using send_impl_single_pass [of s_no_block message N topic clk self]
    by (simp add: to_nanoseconds_no_block zero)
  assume "\<not> accepts (m_socket self) (length (calls (m_socket self)))"
  from attempt_rejected [OF this, of message N topic]
  show "send_impl message N s_no_block topic (clk, self) =
          Some (Inl (SendTimeoutExpired 0), snd (now (snd (now clk))),
                self\<lparr>m_socket := (m_socket self)
                  \<lparr>calls := calls (m_socket self) @ [SendCall topic True False],
                   pending := []\<rparr>\<rparr>)"
    unfolding one by simp
qed

theorem first_attempt_precedes_deadline_check_witness:
  "\<not> accepts (m_socket example_sender) (length (calls (m_socket example_sender)))
   \<and> map_option (\<lambda>y. (fst y, calls (m_socket (snd (snd y)))))
        (send_impl (Some ''xyz'') 2 s_no_block [] (example_clock, example_sender)) =
       Some (Inl (SendTimeoutExpired 0), [SendCall [] True False])"
  using first_attempt_precedes_deadline_check
    [of "Some ''xyz''" 2 s_no_block "[]" example_clock example_sender
      "Inl (SendTimeoutExpired 0)"]
    example_no_block
  by (simp add: example_sender_eq late_channel_def)

subsection \<open>C6: the block-forever timeout\<close>

text \<open>
  C6. With the timeout \<^verbatim>\<open>s_block\<close> the loop's test compares the elapsed nanoseconds with
  \<^verbatim>\<open>duration_t::max()\<close> milliseconds converted to nanoseconds, which wraps to
  \<open>-1000000\<close>: the test fails at once, and a delivery whose first pass is rejected raises
  \<^verbatim>\<open>SendTimeoutExpired\<close> although the channel would have accepted the next pass.
\<close>

theorem block_forever_times_out:
  "send_impl (Some ''xyz'') 2 s_block ''t'' (example_clock, example_sender) =
     Some (Inl (SendTimeoutExpired (- 1)),
       \<lparr>reading = 2000, reads = 2, passes = (\<lambda>_. 1000)\<rparr>,
       example_sender\<lparr>m_socket := (m_socket example_sender)
          \<lparr>calls := [SendCall ''t'' True False]\<rparr>\<rparr>)
   \<and> late_channel 1 \<and> late_channel 2"
  by (simp add: send_impl_block) (simp add: run_defs)

subsection \<open>C7: zero-size sends\<close>

text \<open>
  C7. A call of \<^verbatim>\<open>send\<close> with byte count zero returns at once: with success on a ready
  sender, with \<^verbatim>\<open>KnownStateForbidsSend\<close> (the spec's \<open>NotReady\<close>) on one that is not
  ready. Either way the object and the clock come back as they were, so the counters are
  unchanged and the socket has seen no call.
\<close>

theorem zero_size_send_is_no_op:
  "send message 0 timeout metadata no_tmoexcept_mode (clk, self) =
     Some (if can_send self then Inr True else Inl KnownStateForbidsSend, clk, self)"
  by (simp add: send_def)

theorem zero_size_send_is_no_op_witness:
  "send (Some ''xyz'') 0 s_block [] False (example_clock, example_sender) =
     Some (Inr True, example_clock, example_sender)
   \<and> send (Some ''xyz'') 0 s_block [] False
         (example_clock, ZmqSenderImpl_new Push late_channel False) =
     Some (Inl KnownStateForbidsSend, example_clock, ZmqSenderImpl_new Push late_channel False)"
  using zero_size_send_is_no_op [of "Some ''xyz''" s_block "[]" False example_clock example_sender]
    zero_size_send_is_no_op [of "Some ''xyz''" s_block "[]" False example_clock
      "ZmqSenderImpl_new Push late_channel False"]
  by (simp add: can_send_def example_sender_eq) (simp add: ZmqSenderImpl_new_def)

subsection \<open>C8: null buffers\<close>

text \<open>
  C8. On a ready sender, a call of \<^verbatim>\<open>send\<close> with the null pointer and a non-zero byte
  count fails with \<^verbatim>\<open>NullPointerPassedToSend\<close> (the spec's \<open>InvalidArgument\<close>); the
  object and the clock come back as they were, so the delivery routine was not called.
\<close>

theorem null_buffer_is_rejected:
  "can_send self \<and> message_size \<noteq> 0 \<longrightarrow>
     send None message_size timeout metadata no_tmoexcept_mode (clk, self) =
       Some (Inl NullPointerPassedToSend, clk, self)"
  by (simp add: send_def)

theorem null_buffer_is_rejected_witness:
  "can_send example_sender
   \<and> send None 5 s_block [] False (example_clock, example_sender) =
       Some (Inl NullPointerPassedToSend, example_clock, example_sender)"
  using null_buffer_is_rejected [of example_sender 5 s_block "[]" False example_clock]
  by (simp add: can_send_def example_sender_eq)

subsection \<open>C9: connecting\<close>

text \<open>
  C9. \<^verbatim>\<open>connect_for_sends\<close> stores the descriptor's value under the key
  \<^verbatim>\<open>connection_string\<close>, or \<^verbatim>\<open>inproc://default\<close> when the key is absent, sets the
  socket's send timeout option to 1 (millisecond), binds the socket to the stored address
  and leaves \<^verbatim>\<open>can_send()\<close> true.
\<close>

theorem connect_for_sends_effect:
  "m_connection_string (connect_for_sends connection_info self) =
     (case connection_info ''connection_string'' of
        None \<Rightarrow> ''inproc://default'' | Some v \<Rightarrow> v)
   \<and> sndtimeo (m_socket (connect_for_sends connection_info self)) = Some 1
   \<and> endpoints (m_socket (connect_for_sends connection_info self)) =
       endpoints (m_socket self) @ [m_connection_string (connect_for_sends connection_info self)]
   \<and> can_send (connect_for_sends connection_info self)"
  by (simp add: connect_for_sends_def can_send_def json_value_def
      socket_setsockopt_SNDTIMEO_def socket_bind_def Let_def)

theorem connect_for_sends_effect_witness:
  "endpoints (m_socket (connect_for_sends [''connection_string'' \<mapsto> ''tcp://127.0.0.1:5555'']
       (ZmqSenderImpl_new Publisher late_channel False))) = [''tcp://127.0.0.1:5555'']
   \<and> endpoints (m_socket (connect_for_sends Map.empty
       (ZmqSenderImpl_new Publisher late_channel False))) = [''inproc://default'']"
  using connect_for_sends_effect
      [of "[''connection_string'' \<mapsto> ''tcp://127.0.0.1:5555'']"
        "ZmqSenderImpl_new Publisher late_channel False"]
    connect_for_sends_effect [of Map.empty "ZmqSenderImpl_new Publisher late_channel False"]
  by (simp add: ZmqSenderImpl_new_def socket_new_def)

subsection \<open>C10: payload after topic\<close>

text \<open>
  C10. In every pass through the loop body the payload is offered to the socket only when
  the topic part was accepted in that same pass; a rejected topic part ends the pass. Over a
  whole delivery that returns, the calls it made therefore read as passes that each start
  with the topic part, a payload call always directly following an accepted topic call.
\<close>

theorem payload_follows_accepted_topic:
  "calls (snd (attempt message N topic sock)) =
     calls sock @
       (if accepts sock (length (calls sock))
        then [SendCall topic True True,
              SendCall (message_t message (to_size_t N)) False
                (accepts sock (Suc (length (calls sock))))]
        else [SendCall topic True False])
   \<and> (send_impl message N timeout topic (clk, self) = Some (r, clk', self') \<longrightarrow>
        (\<exists>ext. calls (m_socket self') = calls (m_socket self) @ ext \<and>
           topic_first topic (message_t message (to_size_t N)) ext))"
proof (intro conjI impI)
  show "calls (snd (attempt message N topic sock)) =
     calls sock @
       (if accepts sock (length (calls sock))
        then [SendCall topic True True,
              SendCall (message_t message (to_size_t N)) False
                (accepts sock (Suc (length (calls sock))))]
        else [SendCall topic True False])"
    by (rule attempt_calls)
next
  assume "send_impl message N timeout topic (clk, self) = Some (r, clk', self')"
  then obtain res sock where
    loop: "send_loop message N timeout topic (fst (now clk)) (snd (now clk), m_socket self) =
       Some (res, clk', sock)"
    and self': "self' = self\<lparr>m_socket := sock\<rparr>"
    by (rule send_impl_returns)
  from send_loop_calls [OF loop] self'
  show "\<exists>ext. calls (m_socket self') = calls (m_socket self) @ ext \<and>
           topic_first topic (message_t message (to_size_t N)) ext"
    by auto
qed

theorem payload_follows_accepted_topic_witness:
  "calls (snd (attempt (Some ''xyz'') 2 [] (m_socket example_sender))) = [SendCall [] True False]
   \<and> topic_first [] ''xy''
        [SendCall [] True False, SendCall [] True True, SendCall ''xy'' False True]"
  using payload_follows_accepted_topic
    [of "Some ''xyz''" 2 "[]" "m_socket example_sender" 5 example_clock example_sender]
    example_retry
  by (simp add: example_sender_eq late_channel_def)

end
